theory Spec2Isabelle
  imports Complex_Main
begin

section \<open>The task manager of TaskManagerCore.js\<close>

text \<open>
  The script keeps its tasks as the rows of one sheet of a spreadsheet. This theory
  embeds the script's functions as functions on an explicit state and proves or
  refutes properties of them.

  What is modelled and how:
  \<^item> A sheet holds the header row (row 1, written by \<open>setupSheetStructure\<close>) and below
    it the task rows. The model keeps the task rows as a list; the header row is implicit,
    so \<open>getLastRow\<close> is one more than the number of task rows, and index \<open>i\<close> of
    \<open>getDataRange().getValues()\<close> (for \<open>i \<ge> 1\<close>) is element \<open>i - 1\<close> of the list.
  \<^item> A row is the record of its nine cells. Every cell holds a value of the type the
    script writes into its column: the ID is a number, the texts are strings.
  \<^item> The spreadsheet is a map from sheet names to sheets: \<open>getSheetByName\<close> is the lookup,
    \<open>None\<close> where the script gets \<open>null\<close>.
  \<^item> The script cache holds at most the entry \<open>all_tasks\<close>; the JSON text stored there
    is represented by the task list it encodes.
  \<^item> \<open>new Date()\<close> is the parameter \<open>now\<close> (milliseconds), one instant per call.
  \<^item> An exception is an \<open>Inl\<close> result; the state after the call is returned next to it.
  \<^item> The host is a reliable store: a range write or a row deletion that the script issues
    with well-formed arguments succeeds. Cell styling, data-validation rules, conditional
    formatting, \<open>Utilities.sleep\<close> and console logging have no counterpart in the model.
\<close>

subsection \<open>Configuration\<close>

definition CONFIG_SHEET_NAME :: string where
  "CONFIG_SHEET_NAME = ''Tasks''"

definition CONFIG_HEADERS :: "string list" where
  "CONFIG_HEADERS = [''ID'', ''Task'', ''Status'', ''Priority'', ''Created Date'',
     ''Due Date'', ''Notes'', ''Tags'', ''Assignee'']"

definition STATUS_OPTIONS :: "string list" where
  "STATUS_OPTIONS = [''Pending'', ''In Progress'', ''Completed'', ''Blocked'']"

definition PRIORITY_OPTIONS :: "string list" where
  "PRIORITY_OPTIONS = [''Low'', ''Medium'', ''High'', ''Critical'']"

definition BATCH_SIZE :: nat where
  "BATCH_SIZE = 100"

subsection \<open>Strings\<close>

text \<open>
  A string is the list of its code units, restricted to the 8-bit range of \<^typ>\<open>char\<close>.
  \<open>String.prototype.trim\<close> removes white space and line terminators from both ends; in
  this range these are tab, line feed, vertical tab, form feed, carriage return, space and
  the no-break space.
\<close>

definition is_ws :: "char \<Rightarrow> bool" where
  "is_ws c \<longleftrightarrow> c \<in> {CHR 0x09, CHR 0x0A, CHR 0x0B, CHR 0x0C, CHR 0x0D, CHR 0x20, CHR 0xA0}"

definition trim :: "string \<Rightarrow> string" where
  "trim s = rev (dropWhile is_ws (rev (dropWhile is_ws s)))"

text \<open>\<open>s.split(',')\<close>: the pieces between the commas; the empty string gives one empty piece.\<close>

fun split_comma :: "string \<Rightarrow> string list" where
  "split_comma [] = [[]]"
| "split_comma (c # cs) =
     (if c = CHR '','' then [] # split_comma cs
      else (case split_comma cs of
              [] \<Rightarrow> [[c]]
            | w # ws \<Rightarrow> (c # w) # ws))"

text \<open>\<open>xs.slice(i, j)\<close> for indices \<open>0 \<le> i \<le> j\<close>; both ends are clipped to the length.\<close>

definition slice :: "'a list \<Rightarrow> nat \<Rightarrow> nat \<Rightarrow> 'a list" where
  "slice xs i j = take (j - i) (drop i xs)"

subsection \<open>Rows, arguments, errors and the state\<close>

text \<open>
  The due-date cell: empty, a date (milliseconds), the Invalid Date object that
  \<open>new Date\<close> gives for text it cannot parse, or such text stored as it is.
\<close>

datatype due = NoDue | DueAt int | InvalidDate | DueText string

text \<open>
  A due-date argument: a Date object, or a string that \<open>new Date\<close> cannot parse. The
  argument left out (or the empty string) is \<open>None\<close> at the places that take an optional
  argument.
\<close>

datatype date_arg = DateObj int | Unparseable string

record row7 =
  ID :: int
  Task :: string
  Status :: string
  Priority :: string
  CreatedDate :: int
  DueDate :: due
  Notes :: string

record row = row7 +
  Tags :: string
  Assignee :: string

text \<open>
  The object that \<open>getAllTasks\<close> builds from a row has one property for each cell
  (\<open>id\<close>, \<open>task\<close>, \<open>status\<close>, \<open>priority\<close>, \<open>createdDate\<close>, \<open>dueDate\<close>, \<open>notes\<close>,
  \<open>tags\<close>, \<open>assignee\<close>) and is represented by the \<^typ>\<open>row\<close> itself; the object of
  \<open>getTasks\<close> has the first seven and is a \<^typ>\<open>row7\<close>.
\<close>

text \<open>
  An element \<open>task\<close> of the array given to \<open>addTasksBatch\<close>: the field \<open>task_name\<close> is
  the property \<open>task.name\<close>, and so on; \<open>None\<close> is a property left out.
\<close>

record task_input =
  task_name :: "string option"
  task_priority :: "string option"
  task_dueDate :: "date_arg option"
  task_notes :: "string option"
  task_tags :: "string option"
  task_assignee :: "string option"

text \<open>The argument of \<open>addTasksBatch\<close>: an array, or any value that is not an array.\<close>

datatype 'a js_arg = NotAnArray | Array "'a list"

text \<open>
  The exceptions of the script, named after their messages:
  \<open>Task name is required\<close>, \<open>Invalid tasks array provided\<close>,
  \<open>Task sheet not found. Please initialize the Task Manager first.\<close>, the
  \<open>TypeError\<close> of calling \<open>trim\<close> on \<open>undefined\<close>, and the host's refusal of
  \<open>setValues\<close> when the data and the range differ in their number of columns.
  The first two are the validation errors of the specification.
\<close>

datatype error =
    TaskNameRequired
  | InvalidTasksArray
  | TaskSheetNotFound
  | TypeError
  | ColumnMismatch

definition is_ValidationError :: "error \<Rightarrow> bool" where
  "is_ValidationError e \<longleftrightarrow> e = TaskNameRequired \<or> e = InvalidTasksArray"

record state =
  sheets :: "string \<rightharpoonup> row list"
  cache :: "row list option"
  alerts :: "string list"

definition alert :: "string \<Rightarrow> state \<Rightarrow> state" where
  "alert msg st = st\<lparr>alerts := alerts st @ [msg]\<rparr>"

definition getLastRow :: "row list \<Rightarrow> int" where
  "getLastRow body = int (length body) + 1"

text \<open>Writing \<open>rs\<close> into the rows after the last one of the sheet \<open>nm\<close>.\<close>

definition appendRows :: "string \<Rightarrow> row list \<Rightarrow> state \<Rightarrow> state" where
  "appendRows nm rs st =
     (case sheets st nm of
        None \<Rightarrow> st
      | Some body \<Rightarrow> st\<lparr>sheets := (sheets st)(nm \<mapsto> body @ rs)\<rparr>)"

definition getTaskSheet :: "state \<Rightarrow> error + row list" where
  "getTaskSheet st =
     (case sheets st CONFIG_SHEET_NAME of
        None \<Rightarrow> Inl TaskSheetNotFound
      | Some body \<Rightarrow> Inr body)"

definition clearTaskCache :: "state \<Rightarrow> state" where
  "clearTaskCache st = st\<lparr>cache := None\<rparr>"

subsection \<open>Creating tasks\<close>

text \<open>
  \<open>buildTaskData\<close> (lines 158 to 189). The identifier is read off the sheet as it is when
  the function is called. \<open>trim\<close> of an argument that is \<open>undefined\<close> raises.
\<close>

definition parseDueDate :: "date_arg option \<Rightarrow> due" where
  "parseDueDate dueDate =
     (case dueDate of
        None \<Rightarrow> NoDue
      | Some (DateObj t) \<Rightarrow> DueAt t
      | Some (Unparseable s) \<Rightarrow> (if s = [] then NoDue else InvalidDate))"

definition buildTaskData ::
  "int \<Rightarrow> state \<Rightarrow> string option \<Rightarrow> string option \<Rightarrow> date_arg option \<Rightarrow>
   string option \<Rightarrow> string option \<Rightarrow> string option \<Rightarrow> error + row" where
  "buildTaskData now st taskName priority dueDate notes tags assignee =
     (case getTaskSheet st of
        Inl e \<Rightarrow> Inl e
      | Inr body \<Rightarrow>
          (let lastRow = getLastRow body;
               newId = (if lastRow > 1 then lastRow else 1);
               priority' = (case priority of
                              None \<Rightarrow> ''Medium''
                            | Some p \<Rightarrow> if p \<in> set PRIORITY_OPTIONS then p else ''Medium'');
               parsedDueDate = parseDueDate dueDate
           in (case (taskName, notes, tags, assignee) of
                 (Some taskName', Some notes', Some tags', Some assignee') \<Rightarrow>
                   Inr \<lparr>ID = newId, Task = trim taskName', Status = ''Pending'',
                        Priority = priority', CreatedDate = now, DueDate = parsedDueDate,
                        Notes = trim notes', Tags = trim tags', Assignee = trim assignee'\<rparr>
               | _ \<Rightarrow> Inl TypeError)))"

text \<open>The default value of a parameter replaces an argument that is left out.\<close>

definition default :: "'a \<Rightarrow> 'a option \<Rightarrow> 'a" where
  "default d a = (case a of None \<Rightarrow> d | Some v \<Rightarrow> v)"

text \<open>
  The first declaration of \<open>addTask\<close> (lines 133 to 153). The file declares \<open>addTask\<close> a
  second time further down (lines 435 to 460); in a script the later declaration of a
  function name replaces the earlier one, so no call reaches this one. Its \<open>catch\<close>
  block is for a write that the host refuses, which the model does not have.
\<close>

definition addTask_first ::
  "int \<Rightarrow> string \<Rightarrow> string option \<Rightarrow> date_arg option \<Rightarrow> string option \<Rightarrow>
   string option \<Rightarrow> string option \<Rightarrow> state \<Rightarrow> (error + int) \<times> state" where
  "addTask_first now taskName priority dueDate notes tags assignee st =
     (if taskName = [] \<or> trim taskName = [] then (Inl TaskNameRequired, st)
      else (case getTaskSheet st of
              Inl e \<Rightarrow> (Inl e, st)
            | Inr sheet \<Rightarrow>
                (case buildTaskData now st (Some taskName) (Some (default ''Medium'' priority))
                        dueDate (Some (default [] notes)) (Some (default [] tags))
                        (Some (default [] assignee)) of
                   Inl e \<Rightarrow> (Inl e, st)
                 | Inr taskData \<Rightarrow>
                     (Inr (ID taskData),
                      clearTaskCache (appendRows CONFIG_SHEET_NAME [taskData] st)))))"

text \<open>
  The second declaration of \<open>addTask\<close> (lines 435 to 460), the one a call of \<open>addTask\<close>
  runs. \<open>SHEET_NAME\<close> and \<open>HEADERS\<close> are constants that the file uses and does not
  declare; they are parameters here. The row written has seven cells, so the two
  remaining cells of the row stay empty, and the host refuses the write unless the range,
  which is \<open>HEADERS.length\<close> wide, has seven columns. Without the sheet the function
  shows an alert and returns \<open>undefined\<close>, here \<open>None\<close>.
\<close>

definition storeDueDate :: "date_arg option \<Rightarrow> due" where
  "storeDueDate dueDate =
     (case dueDate of
        None \<Rightarrow> NoDue
      | Some (DateObj t) \<Rightarrow> DueAt t
      | Some (Unparseable s) \<Rightarrow> (if s = [] then NoDue else DueText s))"

definition addTask ::
  "string \<Rightarrow> string list \<Rightarrow> int \<Rightarrow> string \<Rightarrow> string option \<Rightarrow> date_arg option \<Rightarrow>
   string option \<Rightarrow> state \<Rightarrow> (error + int option) \<times> state" where
  "addTask SHEET_NAME HEADERS now taskName priority dueDate notes st =
     (case sheets st SHEET_NAME of
        None \<Rightarrow> (Inr None, alert ''Please initialize the Task Manager first!'' st)
      | Some body \<Rightarrow>
          (let lastRow = getLastRow body;
               newId = (if lastRow > 1 then lastRow else 1);
               createdDate = now;
               newTask = \<lparr>ID = newId, Task = taskName, Status = ''Pending'',
                          Priority = default ''Medium'' priority, CreatedDate = createdDate,
                          DueDate = storeDueDate dueDate, Notes = default [] notes,
                          Tags = [], Assignee = []\<rparr>
           in if length HEADERS \<noteq> 7 then (Inl ColumnMismatch, st)
              else (Inr (Some newId), appendRows SHEET_NAME [newTask] st)))"

text \<open>
  \<open>addTasksBatch\<close> (lines 194 to 233). The loop that cuts the array into batches advances
  by \<open>BATCH_SIZE\<close>. Each batch builds all its rows first and writes them afterwards; an
  exception inside a batch is caught and logged, and the loop goes on with the next batch.
\<close>

function batches_from :: "nat \<Rightarrow> 'a list \<Rightarrow> 'a list list" where
  "batches_from i tasksArray =
     (if i < length tasksArray
      then slice tasksArray i (i + BATCH_SIZE) # batches_from (i + BATCH_SIZE) tasksArray
      else [])"
  by pat_completeness auto
termination
  by (relation "measure (\<lambda>(i, tasksArray). length tasksArray - i)")
     (auto simp: BATCH_SIZE_def)

declare batches_from.simps [simp del]

fun build_batch :: "int \<Rightarrow> state \<Rightarrow> task_input list \<Rightarrow> error + row list" where
  "build_batch now st [] = Inr []"
| "build_batch now st (task # batch) =
     (case buildTaskData now st (task_name task) (task_priority task) (task_dueDate task)
             (task_notes task) (task_tags task) (task_assignee task) of
        Inl e \<Rightarrow> Inl e
      | Inr taskData \<Rightarrow>
          (case build_batch now st batch of
             Inl e \<Rightarrow> Inl e
           | Inr rest \<Rightarrow> Inr (taskData # rest)))"

definition batch_step :: "int \<Rightarrow> nat \<times> state \<Rightarrow> task_input list \<Rightarrow> nat \<times> state" where
  "batch_step now acc batch =
     (case acc of (totalAdded, st) \<Rightarrow>
        (case build_batch now st batch of
           Inl e \<Rightarrow> (totalAdded, st)
         | Inr taskDataBatch \<Rightarrow>
             (totalAdded + length taskDataBatch,
              appendRows CONFIG_SHEET_NAME taskDataBatch st)))"

definition addTasksBatch ::
  "int \<Rightarrow> task_input js_arg \<Rightarrow> state \<Rightarrow> (error + nat) \<times> state" where
  "addTasksBatch now arg st =
     (case arg of
        NotAnArray \<Rightarrow> (Inl InvalidTasksArray, st)
      | Array tasksArray \<Rightarrow>
          if tasksArray = [] then (Inl InvalidTasksArray, st)
          else (case getTaskSheet st of
                  Inl e \<Rightarrow> (Inl e, st)
                | Inr sheet \<Rightarrow>
                    (let batches = batches_from 0 tasksArray;
                         (totalAdded, st') = foldl (batch_step now) (0, st) batches
                     in (Inr totalAdded, clearTaskCache st'))))"

subsection \<open>Completing, deleting and listing tasks\<close>

text \<open>
  \<open>completeTask\<close> (lines 465 to 483) and \<open>deleteTask\<close> (lines 488 to 504) look through
  the rows below the header from the top and leave the loop at the first row whose ID is
  the one asked for. The argument is a number, on which \<open>==\<close> is equality. The
  background colour that \<open>completeTask\<close> sets is styling.
\<close>

fun complete_scan :: "int \<Rightarrow> row list \<Rightarrow> row list" where
  "complete_scan taskId [] = []"
| "complete_scan taskId (r # rs) =
     (if ID r = taskId then r\<lparr>Status := ''Completed''\<rparr> # rs
      else r # complete_scan taskId rs)"

definition completeTask :: "string \<Rightarrow> int \<Rightarrow> state \<Rightarrow> state" where
  "completeTask SHEET_NAME taskId st =
     (case sheets st SHEET_NAME of
        None \<Rightarrow> alert ''Please initialize the Task Manager first!'' st
      | Some body \<Rightarrow> st\<lparr>sheets := (sheets st)(SHEET_NAME \<mapsto> complete_scan taskId body)\<rparr>)"

fun delete_scan :: "int \<Rightarrow> row list \<Rightarrow> row list" where
  "delete_scan taskId [] = []"
| "delete_scan taskId (r # rs) =
     (if ID r = taskId then rs else r # delete_scan taskId rs)"

definition deleteTask :: "string \<Rightarrow> int \<Rightarrow> state \<Rightarrow> state" where
  "deleteTask SHEET_NAME taskId st =
     (case sheets st SHEET_NAME of
        None \<Rightarrow> alert ''Please initialize the Task Manager first!'' st
      | Some body \<Rightarrow> st\<lparr>sheets := (sheets st)(SHEET_NAME \<mapsto> delete_scan taskId body)\<rparr>)"

text \<open>
  \<open>getTasks\<close> (lines 509 to 536): the rows below the header as objects of seven
  properties, all of them or those whose status is the filter.
\<close>

definition task_of_row :: "row \<Rightarrow> row7" where
  "task_of_row r = \<lparr>ID = ID r, Task = Task r, Status = Status r, Priority = Priority r,
     CreatedDate = CreatedDate r, DueDate = DueDate r, Notes = Notes r\<rparr>"

definition getTasks :: "string \<Rightarrow> string option \<Rightarrow> state \<Rightarrow> row7 list" where
  "getTasks SHEET_NAME statusFilter st =
     (case sheets st SHEET_NAME of
        None \<Rightarrow> []
      | Some body \<Rightarrow>
          filter (\<lambda>task. default [] statusFilter = [] \<or> Status task = default [] statusFilter)
            (map task_of_row body))"

subsection \<open>Reading all tasks, initialisation\<close>

text \<open>
  \<open>getAllTasks\<close> (lines 306 to 340). The cached text is the JSON of an array and so
  never empty: a cache entry that is present is used.
\<close>

definition getAllTasks :: "bool option \<Rightarrow> state \<Rightarrow> (error + row list) \<times> state" where
  "getAllTasks useCache st =
     (case (default True useCache, cache st) of
        (True, Some cached) \<Rightarrow> (Inr cached, st)
      | _ \<Rightarrow>
          (case getTaskSheet st of
             Inl e \<Rightarrow> (Inl e, st)
           | Inr body \<Rightarrow>
               (let tasks = body
                in (Inr tasks,
                    if default True useCache then st\<lparr>cache := Some tasks\<rparr> else st))))"

text \<open>
  The message of an exception. The texts of the last two are the engine's and the host's
  and are given in short; no alert that the model can reach shows them.
\<close>

definition message :: "error \<Rightarrow> string" where
  "message e =
     (case e of
        TaskNameRequired \<Rightarrow> ''Task name is required''
      | InvalidTasksArray \<Rightarrow> ''Invalid tasks array provided''
      | TaskSheetNotFound \<Rightarrow> ''Task sheet not found. Please initialize the Task Manager first.''
      | TypeError \<Rightarrow> ''Cannot read properties of undefined''
      | ColumnMismatch \<Rightarrow>
          ''The number of columns in the data does not match the number of columns in the range.'')"

definition sampleTasks :: "int \<Rightarrow> task_input list" where
  "sampleTasks now =
     [\<lparr>task_name = Some ''Implement advanced GitHub workflow'',
       task_priority = Some ''Critical'',
       task_dueDate = Some (DateObj (now + 3 * 24 * 60 * 60 * 1000)),
       task_notes = Some ''Set up CI/CD pipeline with automated testing'',
       task_tags = Some ''devops, github, automation'',
       task_assignee = Some ''dev.team@company.com''\<rparr>,
      \<lparr>task_name = Some ''AI code review integration'',
       task_priority = Some ''High'',
       task_dueDate = Some (DateObj (now + 7 * 24 * 60 * 60 * 1000)),
       task_notes = Some ''Integrate AI tools for automated code review'',
       task_tags = Some ''ai, code-review, automation'',
       task_assignee = Some ''ai.team@company.com''\<rparr>,
      \<lparr>task_name = Some ''Performance optimization analysis'',
       task_priority = Some ''Medium'',
       task_dueDate = Some (DateObj (now + 14 * 24 * 60 * 60 * 1000)),
       task_notes = Some ''Analyze and optimize application performance'',
       task_tags = Some ''performance, optimization, monitoring'',
       task_assignee = Some ''performance.team@company.com''\<rparr>]"

definition addSampleData :: "int \<Rightarrow> state \<Rightarrow> (error + nat) \<times> state" where
  "addSampleData now st = addTasksBatch now (Array (sampleTasks now)) st"

text \<open>
  \<open>initializeTaskManager\<close> (lines 22 to 44): the sheet is created if it is missing,
  \<open>setupSheetStructure\<close> clears it and writes the header row, and the sample tasks are
  added. An exception on the way ends in the alert of the \<open>catch\<close> block.
\<close>

definition setupSheetStructure :: "state \<Rightarrow> state" where
  "setupSheetStructure st = st\<lparr>sheets := (sheets st)(CONFIG_SHEET_NAME \<mapsto> [])\<rparr>"

definition initializeTaskManager :: "int \<Rightarrow> state \<Rightarrow> state" where
  "initializeTaskManager now st =
     (case addSampleData now (setupSheetStructure st) of
        (Inl e, st') \<Rightarrow> alert (''Initialization failed: '' @ message e) st'
      | (Inr n, st') \<Rightarrow> alert ''Advanced Task Manager initialized successfully!'' st')"

subsection \<open>Analytics\<close>

text \<open>
  Numbers. The script computes the two rates in floating point; the model computes them in
  the rationals. The two agree where every intermediate value is a floating-point number,
  which is so at the values stated below (\<open>1 / 4\<close>, \<open>25\<close>). \<open>x.toFixed(2)\<close> is the decimal
  text of the integer \<open>n\<close> for which \<open>n / 100\<close> is nearest to the magnitude of \<open>x\<close>, the
  larger one of two, with a minus sign for a negative \<open>x\<close> (values from \<open>10^21\<close> on, which
  print in exponent form, are not reached by a percentage). \<open>digit\<close> is the character
  of a decimal digit, a number below ten.
\<close>

definition digit :: "nat \<Rightarrow> char" where
  "digit d = ''0123456789'' ! d"

fun digits :: "nat \<Rightarrow> string" where
  "digits n = (if n < 10 then [digit n] else digits (n div 10) @ [digit (n mod 10)])"

definition toFixed2 :: "rat \<Rightarrow> string" where
  "toFixed2 x =
     (let n = nat \<lfloor>\<bar>x\<bar> * 100 + 1 / 2\<rfloor>
      in (if x < 0 then ''-'' else []) @ digits (n div 100) @ ''.'' @
         [digit (n div 10 mod 10), digit (n mod 10)])"

text \<open>
  The analytics object holds four plain objects that are used as dictionaries. A plain
  object inherits the properties of \<open>Object.prototype\<close>: reading a key that the
  dictionary does not have itself gives the inherited value for these names, and
  \<open>undefined\<close> for every other name. The inherited values are the built-in functions,
  which turn into the text \<open>function name() { [native code] }\<close> when a number is added to
  them, and the prototype object under \<open>__proto__\<close>, which turns into
  \<open>[object Object]\<close>. Writing a key stores it in the dictionary itself, except for
  \<open>__proto__\<close>: that name is the accessor of the prototype, which ignores a value that is
  not an object, so nothing is stored.
\<close>

definition native_names :: "string list" where
  "native_names = [''__defineGetter__'', ''__defineSetter__'', ''hasOwnProperty'',
     ''__lookupGetter__'', ''__lookupSetter__'', ''isPrototypeOf'',
     ''propertyIsEnumerable'', ''toString'', ''valueOf'', ''toLocaleString'']"

definition inherited :: "string \<Rightarrow> string option" where
  "inherited key =
     (if key = ''constructor'' then Some ''function Object() { [native code] }''
      else if key = ''__proto__'' then Some ''[object Object]''
      else if key \<in> set native_names then Some (''function '' @ key @ ''() { [native code] }'')
      else None)"

definition set_prop :: "(string \<rightharpoonup> 'v) \<Rightarrow> string \<Rightarrow> 'v \<Rightarrow> (string \<rightharpoonup> 'v)" where
  "set_prop d key v = (if key = ''__proto__'' then d else d(key \<mapsto> v))"

text \<open>
  A counter of \<open>byStatus\<close> or \<open>byPriority\<close>: \<open>++\<close> on a key that the dictionary does
  not have itself, as for a status outside \<open>STATUS_OPTIONS\<close>, turns \<open>undefined\<close> or the
  inherited value into a number, which is \<open>NaN\<close>, and \<open>NaN\<close> stays.
\<close>

datatype count = Count nat | NaN

definition incr :: "count option \<Rightarrow> count" where
  "incr c = (case c of Some (Count n) \<Rightarrow> Count (n + 1) | _ \<Rightarrow> NaN)"

text \<open>The value of \<open>tasks.length > 0 ? x.toFixed(2) : 0\<close>: a text or the number.\<close>

datatype jsvalue = JNumber int | JString string

record analytics =
  total' :: nat
  byStatus :: "string \<rightharpoonup> count"
  byPriority :: "string \<rightharpoonup> count"
  overdue :: nat
  completionRate :: jsvalue
  averageAge :: jsvalue
  topAssignees :: "string \<rightharpoonup> jsvalue"
  tagDistribution :: "string \<rightharpoonup> jsvalue"

text \<open>
  \<open>d[key] = (d[key] || 0) + 1\<close> on such a dictionary. A value of the dictionary is a
  number or a text: \<open>plus1\<close> is \<open>(v || 0) + 1\<close> for a value \<open>v\<close> that the dictionary
  has itself, where a text that is not empty gets the text \<open>1\<close> appended. For a key
  that the dictionary does not have, the result is the number 1, or the text of the
  inherited value with \<open>1\<close> appended.
\<close>

definition plus1 :: "jsvalue \<Rightarrow> jsvalue" where
  "plus1 v =
     (case v of
        JNumber n \<Rightarrow> JNumber (n + 1)
      | JString s \<Rightarrow> if s = [] then JNumber 1 else JString (s @ ''1''))"

definition bump :: "(string \<rightharpoonup> jsvalue) \<Rightarrow> string \<Rightarrow> (string \<rightharpoonup> jsvalue)" where
  "bump d key =
     set_prop d key
       (case d key of
          Some v \<Rightarrow> plus1 v
        | None \<Rightarrow>
            (case inherited key of
               Some text \<Rightarrow> JString (text @ ''1'')
             | None \<Rightarrow> JNumber 1))"

definition count_tag :: "(string \<rightharpoonup> jsvalue) \<Rightarrow> string \<Rightarrow> (string \<rightharpoonup> jsvalue)" where
  "count_tag d tag = (if tag \<noteq> [] then bump d tag else d)"

definition count_tags :: "(string \<rightharpoonup> jsvalue) \<Rightarrow> row \<Rightarrow> (string \<rightharpoonup> jsvalue)" where
  "count_tags d task =
     (if Tags task \<noteq> []
      then (let taskTags = map trim (split_comma (Tags task)) in foldl count_tag d taskTags)
      else d)"

definition is_overdue :: "int \<Rightarrow> row \<Rightarrow> bool" where
  "is_overdue now task \<longleftrightarrow>
     (case DueDate task of DueAt t \<Rightarrow> t < now | _ \<Rightarrow> False) \<and> Status task \<noteq> ''Completed''"

text \<open>
  The body of the \<open>forEach\<close> over the tasks (lines 260 to 295), on the analytics object and
  the two local variables \<open>totalAge\<close> and \<open>completedTasks\<close>.
\<close>

definition analytics_step ::
  "int \<Rightarrow> analytics \<times> rat \<times> nat \<Rightarrow> row \<Rightarrow> analytics \<times> rat \<times> nat" where
  "analytics_step now acc task =
     (case acc of (an, totalAge, completedTasks) \<Rightarrow>
        (let age = of_int (now - CreatedDate task) / (1000 * 60 * 60 * 24)
         in (an\<lparr>byStatus :=
                  set_prop (byStatus an) (Status task) (incr (byStatus an (Status task))),
                byPriority :=
                  set_prop (byPriority an) (Priority task)
                    (incr (byPriority an (Priority task))),
                overdue := (if is_overdue now task then overdue an + 1 else overdue an),
                topAssignees :=
                  (if Assignee task \<noteq> [] then bump (topAssignees an) (Assignee task)
                   else topAssignees an),
                tagDistribution := count_tags (tagDistribution an) task\<rparr>,
             totalAge + age,
             (if Status task = ''Completed'' then completedTasks + 1 else completedTasks))))"

definition initial_analytics :: "row list \<Rightarrow> analytics" where
  "initial_analytics tasks =
     \<lparr>total' = length tasks,
      byStatus = map_of (map (\<lambda>status. (status, Count 0)) STATUS_OPTIONS),
      byPriority = map_of (map (\<lambda>priority. (priority, Count 0)) PRIORITY_OPTIONS),
      overdue = 0, completionRate = JNumber 0, averageAge = JNumber 0,
      topAssignees = Map.empty, tagDistribution = Map.empty\<rparr>"

text \<open>\<open>getTaskAnalytics\<close> (lines 238 to 301) from the task list on.\<close>

definition analyse :: "int \<Rightarrow> row list \<Rightarrow> analytics" where
  "analyse now tasks =
     (case foldl (analytics_step now) (initial_analytics tasks, 0, 0) tasks of
        (an, totalAge, completedTasks) \<Rightarrow>
          an\<lparr>completionRate :=
                (if length tasks > 0
                 then JString (toFixed2 (of_nat completedTasks / of_nat (length tasks) * 100))
                 else JNumber 0),
              averageAge :=
                (if length tasks > 0
                 then JString (toFixed2 (totalAge / of_nat (length tasks)))
                 else JNumber 0)\<rparr>)"

definition getTaskAnalytics :: "int \<Rightarrow> state \<Rightarrow> (error + analytics) \<times> state" where
  "getTaskAnalytics now st =
     (case getAllTasks None st of
        (Inl e, st') \<Rightarrow> (Inl e, st')
      | (Inr tasks, st') \<Rightarrow> (Inr (analyse now tasks), st'))"

subsection \<open>Concrete stores\<close>

text \<open>
  A spreadsheet without any sheet, and the store right after \<open>setupSheetStructure\<close>: the
  header row and no task. \<open>README_HEADERS\<close> are the seven columns of the table in the
  README, a value for the parameter \<open>HEADERS\<close>; \<open>add\<close> is a call of \<open>addTask\<close> with a
  title only, and \<open>ids\<close> reads the ID column.
\<close>

definition no_sheets :: state where
  "no_sheets = \<lparr>sheets = Map.empty, cache = None, alerts = []\<rparr>"

definition fresh :: state where
  "fresh = setupSheetStructure no_sheets"

definition README_HEADERS :: "string list" where
  "README_HEADERS = [''ID'', ''Task'', ''Status'', ''Priority'', ''Created Date'',
     ''Due Date'', ''Notes'']"

definition add :: "string \<Rightarrow> state \<Rightarrow> state" where
  "add title st = snd (addTask CONFIG_SHEET_NAME README_HEADERS 0 title None None None st)"

definition ids :: "state \<Rightarrow> int list option" where
  "ids st = map_option (map ID) (sheets st CONFIG_SHEET_NAME)"

text \<open>
  A row with the given ID, title and status, the store whose task sheet holds the given
  rows, and some rows and inputs for the examples below.
\<close>

definition task_row :: "int \<Rightarrow> string \<Rightarrow> string \<Rightarrow> row" where
  "task_row i title status =
     \<lparr>ID = i, Task = title, Status = status, Priority = ''Medium'', CreatedDate = 0,
      DueDate = NoDue, Notes = [], Tags = [], Assignee = []\<rparr>"

definition store_of :: "row list \<Rightarrow> state" where
  "store_of body = \<lparr>sheets = [CONFIG_SHEET_NAME \<mapsto> body], cache = None, alerts = []\<rparr>"

definition alike :: "row list" where
  "alike = [task_row 2 ''a'' ''Pending'', task_row 1 ''b'' ''Pending'',
            task_row 1 ''c'' ''Pending'']"

definition four_tasks :: "row list" where
  "four_tasks = [task_row 1 ''a'' ''Pending'', task_row 2 ''b'' ''Completed'',
                 task_row 3 ''c'' ''Blocked'', task_row 4 ''d'' ''In Progress'']"


subsection \<open>Notions for the properties\<close>

text \<open>
  An element of a batch that has the four properties on which \<open>buildTaskData\<close> calls
  \<open>trim\<close>. A batch fails exactly when one of its elements is not of this kind
  (\<open>build_batch_fails_iff\<close> below).
\<close>

definition complete_input :: "task_input \<Rightarrow> bool" where
  "complete_input task \<longleftrightarrow>
     task_name task \<noteq> None \<and> task_notes task \<noteq> None \<and> task_tags task \<noteq> None \<and>
     task_assignee task \<noteq> None"

text \<open>
  The tag distribution in the words of the specification: the tags of a task are the
  pieces of its tags field between the commas, trimmed, without the empty ones; the
  distribution maps a tag to the number of its occurrences over all tasks.
\<close>

definition tags_of :: "row \<Rightarrow> string list" where
  "tags_of task = filter (\<lambda>tag. tag \<noteq> []) (map trim (split_comma (Tags task)))"

definition spec_tagDistribution :: "row list \<Rightarrow> (string \<rightharpoonup> jsvalue)" where
  "spec_tagDistribution tasks tag =
     (let n = count_list (concat (map tags_of tasks)) tag
      in if n = 0 then None else Some (JNumber (int n)))"

text \<open>
  A dictionary of numbers, the number under a key (0 for a key it does not have), and the
  dictionary \<open>d\<close> with the occurrences of the tags \<open>ts\<close> added to its numbers.
\<close>

definition numbers :: "(string \<rightharpoonup> jsvalue) \<Rightarrow> bool" where
  "numbers d \<longleftrightarrow> (\<forall>key s. d key \<noteq> Some (JString s))"

definition number_at :: "(string \<rightharpoonup> jsvalue) \<Rightarrow> string \<Rightarrow> int" where
  "number_at d key = (case d key of Some (JNumber n) \<Rightarrow> n | _ \<Rightarrow> 0)"

definition added :: "(string \<rightharpoonup> jsvalue) \<Rightarrow> string list \<Rightarrow> (string \<rightharpoonup> jsvalue)" where
  "added d ts tag =
     (if count_list ts tag = 0 then d tag
      else Some (JNumber (number_at d tag + int (count_list ts tag))))"

section \<open>Properties\<close>

subsection \<open>Batches\<close>

lemma batches_from_step:
  "i < length tasksArray \<Longrightarrow>
   batches_from i tasksArray = slice tasksArray i (i + 100) # batches_from (i + 100) tasksArray"
  by (subst batches_from.simps) (simp add: BATCH_SIZE_def)

lemma batches_from_end: "\<not> i < length tasksArray \<Longrightarrow> batches_from i tasksArray = []"
  by (subst batches_from.simps) simp




text \<open>Building the rows of a batch succeeds exactly when every element is complete.\<close>

lemma buildTaskData_complete:
  assumes "sheets st CONFIG_SHEET_NAME = Some body" and "complete_input task"
  shows "\<exists>taskData. buildTaskData now st (task_name task) (task_priority task)
           (task_dueDate task) (task_notes task) (task_tags task) (task_assignee task) =
             Inr taskData"
  using assms by (auto simp: buildTaskData_def getTaskSheet_def complete_input_def Let_def)


lemma build_batch_fails_iff:
  assumes "sheets st CONFIG_SHEET_NAME = Some body"
  shows "(\<exists>e. build_batch now st batch = Inl e) \<longleftrightarrow>
         (\<exists>task\<in>set batch. \<not> complete_input task)"
proof (induction batch)
  case Nil
  then show ?case by simp
next
  case (Cons task batch)
  show ?case
  proof (cases "complete_input task")
    case True
    with assms obtain taskData where
      "buildTaskData now st (task_name task) (task_priority task) (task_dueDate task)
         (task_notes task) (task_tags task) (task_assignee task) = Inr taskData"
      using buildTaskData_complete by blast
    with True Cons show ?thesis by (auto split: sum.splits)
  next
    case False
    with assms have
      "buildTaskData now st (task_name task) (task_priority task) (task_dueDate task)
         (task_notes task) (task_tags task) (task_assignee task) = Inl TypeError"
      by (auto simp: buildTaskData_def getTaskSheet_def complete_input_def Let_def
          split: option.splits)
    with False show ?thesis by auto
  qed
qed






text \<open>
  Claim C8: \<open>addTasksBatch\<close> fails with a validation error (\<open>Invalid tasks array
  provided\<close>) when its argument is the empty array or is not an array, and the state after
  the failed call is the state before it, so no row is appended.
\<close>

theorem addTasksBatch_invalid_argument:
  "addTasksBatch now NotAnArray st = (Inl InvalidTasksArray, st) \<and>
   addTasksBatch now (Array []) st = (Inl InvalidTasksArray, st) \<and>
   is_ValidationError InvalidTasksArray"
  by (simp add: addTasksBatch_def is_ValidationError_def)

subsection \<open>Identifiers\<close>

text \<open>
  Claim C1 says that no two stored rows ever share an ID and that the ID of a deleted task
  is never given out again. The script takes the number of the last row as the next ID,
  and it does not keep either promise:
  \<^item> \<open>initializeTaskManager\<close> on a spreadsheet without sheets adds its three sample tasks
    in one batch, which builds the three rows before it writes any of them: all three get
    the ID 1;
  \<^item> after the tasks a, b, c (IDs 1, 2, 3) and the deletion of task 1, the last row is
    row 3, and the next task gets the ID 3, which task c still has;
  \<^item> after the tasks a, b and the deletion of task 2, the next task gets the ID 2 again.
\<close>

theorem ids_shared_and_reused:
  "ids (initializeTaskManager 0 no_sheets) = Some [1, 1, 1] \<and>
   ids (add ''d'' (deleteTask CONFIG_SHEET_NAME 1 (add ''c'' (add ''b'' (add ''a'' fresh)))))
     = Some [2, 3, 3] \<and>
   fst (addTask CONFIG_SHEET_NAME README_HEADERS 0 ''c'' None None None
          (deleteTask CONFIG_SHEET_NAME 2 (add ''b'' (add ''a'' fresh)))) = Inr (Some 2)"
proof (intro conjI)
  show "ids (initializeTaskManager 0 no_sheets) = Some [1, 1, 1]"
    by (simp add: ids_def no_sheets_def initializeTaskManager_def addSampleData_def
        sampleTasks_def setupSheetStructure_def addTasksBatch_def getTaskSheet_def
        batch_step_def buildTaskData_def parseDueDate_def getLastRow_def appendRows_def
        clearTaskCache_def alert_def slice_def batches_from_step batches_from_end
        CONFIG_SHEET_NAME_def)
  show "ids (add ''d'' (deleteTask CONFIG_SHEET_NAME 1
      (add ''c'' (add ''b'' (add ''a'' fresh))))) = Some [2, 3, 3]"
    by (simp add: ids_def add_def fresh_def no_sheets_def README_HEADERS_def
        setupSheetStructure_def addTask_def deleteTask_def getLastRow_def appendRows_def
        default_def storeDueDate_def CONFIG_SHEET_NAME_def)
  show "fst (addTask CONFIG_SHEET_NAME README_HEADERS 0 ''c'' None None None
      (deleteTask CONFIG_SHEET_NAME 2 (add ''b'' (add ''a'' fresh)))) = Inr (Some 2)"
    by (simp add: add_def fresh_def no_sheets_def README_HEADERS_def
        setupSheetStructure_def addTask_def deleteTask_def getLastRow_def appendRows_def
        default_def storeDueDate_def CONFIG_SHEET_NAME_def)
qed

subsection \<open>Validation of the title and of the priority\<close>

lemma all_dropWhile: "(\<forall>x\<in>set (dropWhile P s). P x) \<longleftrightarrow> (\<forall>c\<in>set s. P c)"
proof
  assume all: "\<forall>x\<in>set (dropWhile P s). P x"
  have "dropWhile P s = []"
  proof (rule ccontr)
    assume ne: "dropWhile P s \<noteq> []"
    then have "\<not> P (hd (dropWhile P s))" by (rule hd_dropWhile)
    moreover from ne have "hd (dropWhile P s) \<in> set (dropWhile P s)" by simp
    ultimately show False using all by blast
  qed
  then show "\<forall>c\<in>set s. P c" by (simp add: dropWhile_eq_Nil_conv)
next
  assume "\<forall>c\<in>set s. P c"
  then show "\<forall>x\<in>set (dropWhile P s). P x" by (blast dest: set_dropWhileD)
qed

lemma trim_blank: "trim s = [] \<longleftrightarrow> (\<forall>c\<in>set s. is_ws c)"
  by (simp add: trim_def dropWhile_eq_Nil_conv all_dropWhile)

text \<open>
  The first declaration of \<open>addTask\<close> refuses a title that is empty or consists of white
  space, before it touches the store, and it replaces a priority outside
  \<open>PRIORITY_OPTIONS\<close> by \<open>Medium\<close>.
\<close>

lemma addTask_first_blank_title:
  "\<forall>c\<in>set taskName. is_ws c \<Longrightarrow>
   addTask_first now taskName priority dueDate notes tags assignee st =
     (Inl TaskNameRequired, st)"
  by (simp add: addTask_first_def trim_blank)

lemma addTask_first_unknown_priority:
  assumes "sheets st CONFIG_SHEET_NAME = Some body"
    and "\<not> (\<forall>c\<in>set taskName. is_ws c)"
    and "priority \<notin> set PRIORITY_OPTIONS"
  shows "\<exists>r. sheets (snd (addTask_first now taskName (Some priority) dueDate notes tags
                 assignee st)) CONFIG_SHEET_NAME = Some (body @ [r]) \<and>
             Priority r = ''Medium''"
  using assms
  by (auto simp: addTask_first_def trim_blank getTaskSheet_def buildTaskData_def default_def
      appendRows_def clearTaskCache_def Let_def)

text \<open>
  Claim C2 says that \<open>addTask\<close> with an empty or white-space title fails with a validation
  error and appends no row. A call of \<open>addTask\<close> runs the second declaration, which has no
  such check: on the store with the header only, the empty title and the title of three
  spaces each give the ID 1 and a new row with that title.
\<close>

theorem addTask_blank_title_appends_row:
  "addTask CONFIG_SHEET_NAME README_HEADERS now [] None None None fresh =
     (Inr (Some 1),
      fresh\<lparr>sheets := (sheets fresh)(CONFIG_SHEET_NAME \<mapsto>
        [\<lparr>ID = 1, Task = [], Status = ''Pending'', Priority = ''Medium'', CreatedDate = now,
          DueDate = NoDue, Notes = [], Tags = [], Assignee = []\<rparr>])\<rparr>) \<and>
   addTask CONFIG_SHEET_NAME README_HEADERS now ''   '' None None None fresh =
     (Inr (Some 1),
      fresh\<lparr>sheets := (sheets fresh)(CONFIG_SHEET_NAME \<mapsto>
        [\<lparr>ID = 1, Task = ''   '', Status = ''Pending'', Priority = ''Medium'',
          CreatedDate = now, DueDate = NoDue, Notes = [], Tags = [], Assignee = []\<rparr>])\<rparr>)"
  by (simp add: fresh_def no_sheets_def README_HEADERS_def setupSheetStructure_def
      addTask_def getLastRow_def appendRows_def default_def storeDueDate_def
      CONFIG_SHEET_NAME_def)

text \<open>
  Claim C6 says that \<open>addTask\<close> stores the priority \<open>Medium\<close> for a priority argument
  outside \<open>PRIORITY_OPTIONS\<close>. The second declaration, which a call runs, stores the
  argument as it is: the priority \<open>Bogus\<close> is the priority of the new row.
\<close>

theorem addTask_unknown_priority_stored:
  "map_option (map Priority)
     (sheets (snd (addTask CONFIG_SHEET_NAME README_HEADERS now ''x'' (Some ''Bogus'') None
                     None fresh)) CONFIG_SHEET_NAME) = Some [''Bogus'']"
  by (simp add: fresh_def no_sheets_def README_HEADERS_def setupSheetStructure_def
      addTask_def getLastRow_def appendRows_def default_def storeDueDate_def
      CONFIG_SHEET_NAME_def)

subsection \<open>Completing and deleting\<close>

lemma complete_scan_first:
  "\<forall>x\<in>set pre. ID x \<noteq> taskId \<Longrightarrow> ID r = taskId \<Longrightarrow>
   complete_scan taskId (pre @ r # post) = pre @ r\<lparr>Status := ''Completed''\<rparr> # post"
  by (induction pre) simp_all

lemma delete_scan_first:
  "\<forall>x\<in>set pre. ID x \<noteq> taskId \<Longrightarrow> ID r = taskId \<Longrightarrow>
   delete_scan taskId (pre @ r # post) = pre @ post"
  by (induction pre) simp_all

lemma complete_scan_absent:
  "\<forall>x\<in>set body. ID x \<noteq> taskId \<Longrightarrow> complete_scan taskId body = body"
  by (induction body) simp_all

lemma delete_scan_absent:
  "\<forall>x\<in>set body. ID x \<noteq> taskId \<Longrightarrow> delete_scan taskId body = body"
  by (induction body) simp_all

lemma same_sheet:
  "sheets st nm = Some body \<Longrightarrow> st\<lparr>sheets := (sheets st)(nm \<mapsto> body)\<rparr> = st"
  by (simp add: map_upd_triv)

text \<open>
  Claim C9: \<open>completeTask\<close> and \<open>deleteTask\<close> act on the first row, from the top, whose
  ID is the given one, and on no other. Where the rows are \<open>pre\<close>, then \<open>r\<close>, then
  \<open>post\<close>, and \<open>r\<close> is the first row with the ID, \<open>completeTask\<close> sets the status of
  \<open>r\<close> and \<open>deleteTask\<close> removes \<open>r\<close>; \<open>pre\<close> and \<open>post\<close> stay as they are, whatever
  IDs the rows of \<open>post\<close> have. Where no row has the ID, both leave the state as it is.
\<close>

theorem first_match_only:
  assumes "sheets st SHEET_NAME = Some body"
  shows "(\<forall>pre r post.
            body = pre @ r # post \<and> (\<forall>x\<in>set pre. ID x \<noteq> taskId) \<and> ID r = taskId \<longrightarrow>
            completeTask SHEET_NAME taskId st =
              st\<lparr>sheets := (sheets st)(SHEET_NAME \<mapsto>
                     pre @ r\<lparr>Status := ''Completed''\<rparr> # post)\<rparr> \<and>
            deleteTask SHEET_NAME taskId st =
              st\<lparr>sheets := (sheets st)(SHEET_NAME \<mapsto> pre @ post)\<rparr>) \<and>
         ((\<forall>x\<in>set body. ID x \<noteq> taskId) \<longrightarrow>
            completeTask SHEET_NAME taskId st = st \<and> deleteTask SHEET_NAME taskId st = st)"
proof (intro conjI allI impI)
  fix pre r post
  assume h: "body = pre @ r # post \<and> (\<forall>x\<in>set pre. ID x \<noteq> taskId) \<and> ID r = taskId"
  then have c: "complete_scan taskId body = pre @ r\<lparr>Status := ''Completed''\<rparr> # post"
    and d: "delete_scan taskId body = pre @ post"
    by (simp_all add: complete_scan_first delete_scan_first)
  show "completeTask SHEET_NAME taskId st =
      st\<lparr>sheets := (sheets st)(SHEET_NAME \<mapsto> pre @ r\<lparr>Status := ''Completed''\<rparr> # post)\<rparr>"
    using assms c by (simp add: completeTask_def)
  show "deleteTask SHEET_NAME taskId st =
      st\<lparr>sheets := (sheets st)(SHEET_NAME \<mapsto> pre @ post)\<rparr>"
    using assms d by (simp add: deleteTask_def)
next
  assume h: "\<forall>x\<in>set body. ID x \<noteq> taskId"
  then have c: "complete_scan taskId body = body" and d: "delete_scan taskId body = body"
    by (simp_all add: complete_scan_absent delete_scan_absent)
  show "completeTask SHEET_NAME taskId st = st"
    using assms by (simp add: completeTask_def c same_sheet)
  show "deleteTask SHEET_NAME taskId st = st"
    using assms by (simp add: deleteTask_def d same_sheet)
qed

theorem first_match_only_witness:
  "sheets (store_of alike) CONFIG_SHEET_NAME = Some alike \<and>
   completeTask CONFIG_SHEET_NAME 1 (store_of alike) =
     store_of [task_row 2 ''a'' ''Pending'', task_row 1 ''b'' ''Completed'',
               task_row 1 ''c'' ''Pending''] \<and>
   deleteTask CONFIG_SHEET_NAME 1 (store_of alike) =
     store_of [task_row 2 ''a'' ''Pending'', task_row 1 ''c'' ''Pending''] \<and>
   completeTask CONFIG_SHEET_NAME 7 (store_of alike) = store_of alike \<and>
   deleteTask CONFIG_SHEET_NAME 7 (store_of alike) = store_of alike"
proof -
  have h: "sheets (store_of alike) CONFIG_SHEET_NAME = Some alike"
    by (simp add: store_of_def)
  have split: "alike = [task_row 2 ''a'' ''Pending''] @ task_row 1 ''b'' ''Pending'' #
      [task_row 1 ''c'' ''Pending''] \<and>
      (\<forall>x\<in>set [task_row 2 ''a'' ''Pending'']. ID x \<noteq> 1) \<and>
      ID (task_row 1 ''b'' ''Pending'') = 1"
    by (simp add: alike_def task_row_def)
  have none: "\<forall>x\<in>set alike. ID x \<noteq> 7"
    by (simp add: alike_def task_row_def)
  from first_match_only [OF h, of 1] split
  have "completeTask CONFIG_SHEET_NAME 1 (store_of alike) =
      (store_of alike)\<lparr>sheets := (sheets (store_of alike))(CONFIG_SHEET_NAME \<mapsto>
        [task_row 2 ''a'' ''Pending''] @
        (task_row 1 ''b'' ''Pending'')\<lparr>Status := ''Completed''\<rparr> #
        [task_row 1 ''c'' ''Pending''])\<rparr> \<and>
    deleteTask CONFIG_SHEET_NAME 1 (store_of alike) =
      (store_of alike)\<lparr>sheets := (sheets (store_of alike))(CONFIG_SHEET_NAME \<mapsto>
        [task_row 2 ''a'' ''Pending''] @ [task_row 1 ''c'' ''Pending''])\<rparr>"
    by blast
  moreover from first_match_only [OF h, of 7] none
  have "completeTask CONFIG_SHEET_NAME 7 (store_of alike) = store_of alike \<and>
    deleteTask CONFIG_SHEET_NAME 7 (store_of alike) = store_of alike"
    by blast
  ultimately show ?thesis using h by (simp add: store_of_def task_row_def)
qed

lemma sample_store:
  "map_option (map (\<lambda>r. (ID r, Status r)))
     (sheets (initializeTaskManager now no_sheets) CONFIG_SHEET_NAME) =
   Some [(1, ''Pending''), (1, ''Pending''), (1, ''Pending'')]"
  by (simp add: no_sheets_def initializeTaskManager_def addSampleData_def
      sampleTasks_def setupSheetStructure_def addTasksBatch_def getTaskSheet_def
      batch_step_def buildTaskData_def parseDueDate_def getLastRow_def appendRows_def
      clearTaskCache_def alert_def slice_def batches_from_step batches_from_end
      CONFIG_SHEET_NAME_def)

lemma delete_scan_unique:
  "length (filter (\<lambda>r. ID r = taskId) body) = 1 \<Longrightarrow>
   \<forall>x\<in>set (delete_scan taskId body). ID x \<noteq> taskId"
proof (induction body)
  case Nil
  then show ?case by simp
next
  case (Cons r rs)
  show ?case
  proof (cases "ID r = taskId")
    case True
    have "length (filter (\<lambda>r. ID r = taskId) rs) = 0"
      using Cons.prems True by simp
    then have "\<forall>x\<in>set rs. ID x \<noteq> taskId" by (simp add: filter_empty_conv)
    then show ?thesis using True by simp
  next
    case False
    then have "length (filter (\<lambda>r. ID r = taskId) rs) = 1"
      using Cons.prems by simp
    then have "\<forall>x\<in>set (delete_scan taskId rs). ID x \<noteq> taskId" by (rule Cons.IH)
    then show ?thesis using False by simp
  qed
qed

text \<open>
  What holds of the listing that reads the sheet: for an ID that exactly one row has, no
  task that \<open>getTasks\<close> lists after \<open>deleteTask\<close> has the ID, under every status filter,
  and \<open>completeTask\<close> with the ID then returns the state as it is.
\<close>

lemma delete_then_getTasks_and_complete:
  assumes "sheets st SHEET_NAME = Some body"
    and "length (filter (\<lambda>r. ID r = taskId) body) = 1"
  shows "taskId \<notin> ID ` set (getTasks SHEET_NAME statusFilter
                              (deleteTask SHEET_NAME taskId st)) \<and>
         completeTask SHEET_NAME taskId (deleteTask SHEET_NAME taskId st) =
           deleteTask SHEET_NAME taskId st"
proof -
  have absent: "\<forall>x\<in>set (delete_scan taskId body). ID x \<noteq> taskId"
    using assms(2) by (rule delete_scan_unique)
  have "taskId \<notin> ID ` set (getTasks SHEET_NAME statusFilter (deleteTask SHEET_NAME taskId st))"
    using assms(1) absent by (auto simp: getTasks_def deleteTask_def task_of_row_def)
  moreover have "completeTask SHEET_NAME taskId (deleteTask SHEET_NAME taskId st) =
      deleteTask SHEET_NAME taskId st"
    using assms(1) absent by (simp add: completeTask_def deleteTask_def complete_scan_absent)
  ultimately show ?thesis by simp
qed

text \<open>
  Claim C3 says that, for every ID present in the store, no listed task has the ID after
  \<open>deleteTask\<close>, and that \<open>completeTask\<close> with the ID changes nothing then. The script
  does not keep this, in two ways.
  \<^item> \<open>deleteTask\<close> does not clear the cache, as the first declaration of \<open>addTask\<close> and
    \<open>addTasksBatch\<close> do after their writes (lines 146 and 231). On the store with the
    IDs 2, 1, 1, after \<open>getAllTasks\<close> has filled the cache, \<open>deleteTask(2)\<close> removes the
    one row with the ID 2 from the sheet, and \<open>getAllTasks\<close> still returns all three
    tasks, the one with the ID 2 among them.
  \<^item> The store that \<open>initializeTaskManager\<close> leaves has three rows with the ID 1. After
    \<open>deleteTask(1)\<close> two of them are left, \<open>getTasks\<close> lists them, and \<open>completeTask(1)\<close>
    sets the status of the first of them, so the state is not what it was.
\<close>

theorem deleted_task_still_listed:
  "map ID alike = [2, 1, 1] \<and>
   ids (deleteTask CONFIG_SHEET_NAME 2 (snd (getAllTasks None (store_of alike)))) =
     Some [1, 1] \<and>
   fst (getAllTasks None
          (deleteTask CONFIG_SHEET_NAME 2 (snd (getAllTasks None (store_of alike))))) =
     Inr alike \<and>
   map ID (getTasks CONFIG_SHEET_NAME None
     (deleteTask CONFIG_SHEET_NAME 1 (initializeTaskManager 0 no_sheets))) = [1, 1] \<and>
   completeTask CONFIG_SHEET_NAME 1
     (deleteTask CONFIG_SHEET_NAME 1 (initializeTaskManager 0 no_sheets)) \<noteq>
   deleteTask CONFIG_SHEET_NAME 1 (initializeTaskManager 0 no_sheets)"
proof (intro conjI)
  show "map ID alike = [2, 1, 1]"
    by (simp add: alike_def task_row_def)
  have c: "snd (getAllTasks None (store_of alike)) = (store_of alike)\<lparr>cache := Some alike\<rparr>"
    by (simp add: getAllTasks_def store_of_def getTaskSheet_def default_def)
  show "ids (deleteTask CONFIG_SHEET_NAME 2 (snd (getAllTasks None (store_of alike)))) =
      Some [1, 1]"
    unfolding c by (simp add: ids_def deleteTask_def store_of_def alike_def task_row_def)
  show "fst (getAllTasks None
      (deleteTask CONFIG_SHEET_NAME 2 (snd (getAllTasks None (store_of alike))))) = Inr alike"
    unfolding c by (simp add: getAllTasks_def deleteTask_def store_of_def default_def)
  obtain r1 r2 r3 where
    rows: "sheets (initializeTaskManager 0 no_sheets) CONFIG_SHEET_NAME = Some [r1, r2, r3]"
    and r: "ID r1 = 1" "ID r2 = 1" "ID r3 = 1" "Status r2 = ''Pending''"
      "Status r3 = ''Pending''"
    using sample_store [of 0] by auto
  show "map ID (getTasks CONFIG_SHEET_NAME None
     (deleteTask CONFIG_SHEET_NAME 1 (initializeTaskManager 0 no_sheets))) = [1, 1]"
    using rows r by (simp add: getTasks_def deleteTask_def task_of_row_def default_def)
  have a: "map_option (map Status) (sheets (completeTask CONFIG_SHEET_NAME 1
      (deleteTask CONFIG_SHEET_NAME 1 (initializeTaskManager 0 no_sheets)))
      CONFIG_SHEET_NAME) = Some [''Completed'', ''Pending'']"
    using rows r by (simp add: completeTask_def deleteTask_def)
  have b: "map_option (map Status) (sheets
      (deleteTask CONFIG_SHEET_NAME 1 (initializeTaskManager 0 no_sheets))
      CONFIG_SHEET_NAME) = Some [''Pending'', ''Pending'']"
    using rows r by (simp add: deleteTask_def)
  show "completeTask CONFIG_SHEET_NAME 1
     (deleteTask CONFIG_SHEET_NAME 1 (initializeTaskManager 0 no_sheets)) \<noteq>
   deleteTask CONFIG_SHEET_NAME 1 (initializeTaskManager 0 no_sheets)"
  proof
    assume "completeTask CONFIG_SHEET_NAME 1
       (deleteTask CONFIG_SHEET_NAME 1 (initializeTaskManager 0 no_sheets)) =
       deleteTask CONFIG_SHEET_NAME 1 (initializeTaskManager 0 no_sheets)"
    with a b show False by simp
  qed
qed

subsection \<open>Listing\<close>

text \<open>
  Claim C10: without the task sheet, \<open>getTasks\<close> returns the empty list for every status
  filter; it has no exception to raise. This is also what it returns for the sheet that
  holds the header row only, so the two stores look the same through \<open>getTasks\<close>.
\<close>

theorem getTasks_without_sheet:
  assumes "sheets st SHEET_NAME = None"
  shows "getTasks SHEET_NAME statusFilter st = [] \<and>
         getTasks SHEET_NAME statusFilter (st\<lparr>sheets := (sheets st)(SHEET_NAME \<mapsto> [])\<rparr>) =
           getTasks SHEET_NAME statusFilter st"
  using assms by (simp add: getTasks_def)

theorem getTasks_without_sheet_witness:
  "sheets no_sheets ''Tasks'' = None \<and>
   getTasks ''Tasks'' (Some ''Pending'') no_sheets = [] \<and>
   getTasks ''Tasks'' (Some ''Pending'')
     (no_sheets\<lparr>sheets := (sheets no_sheets)(''Tasks'' \<mapsto> [])\<rparr>) =
     getTasks ''Tasks'' (Some ''Pending'') no_sheets"
proof -
  have h: "sheets no_sheets ''Tasks'' = None" by (simp add: no_sheets_def)
  show ?thesis
    using h getTasks_without_sheet [OF h, of "Some ''Pending''"] by simp
qed

subsection \<open>Analytics\<close>

lemma completed_count:
  "snd (snd (foldl (analytics_step now) (an, totalAge, completedTasks) tasks)) =
     completedTasks + length (filter (\<lambda>task. Status task = ''Completed'') tasks)"
  by (induction tasks arbitrary: an totalAge completedTasks)
     (simp_all add: analytics_step_def Let_def)

text \<open>The completion rate is the rendered percentage of the completed tasks.\<close>

lemma completionRate_analyse:
  "completionRate (analyse now tasks) =
     (if length tasks > 0
      then JString (toFixed2
             (of_nat (length (filter (\<lambda>task. Status task = ''Completed'') tasks))
              / of_nat (length tasks) * 100))
      else JNumber 0)"
proof -
  obtain an totalAge completedTasks where
    f: "foldl (analytics_step now) (initial_analytics tasks, 0, 0) tasks =
          (an, totalAge, completedTasks)"
    by (cases "foldl (analytics_step now) (initial_analytics tasks, 0, 0) tasks") auto
  have "completedTasks = length (filter (\<lambda>task. Status task = ''Completed'') tasks)"
    using completed_count [of now "initial_analytics tasks" 0 0 tasks] f by simp
  then show ?thesis by (simp add: analyse_def f)
qed

lemma toFixed2_quarter: "toFixed2 (of_nat 1 / of_nat 4 * 100) = ''25.00''"
proof -
  have "\<lfloor>\<bar>of_nat 1 / of_nat 4 * 100 :: rat\<bar> * 100 + 1 / 2\<rfloor> = 2500"
    by (rule floor_unique) simp_all
  then show ?thesis by (simp add: toFixed2_def digit_def Let_def)
qed

lemma getTaskAnalytics_of_tasks:
  "getAllTasks None st = (Inr tasks, st') \<Longrightarrow>
   getTaskAnalytics now st = (Inr (analyse now tasks), st')"
  by (simp add: getTaskAnalytics_def)

text \<open>
  Claim C4: where \<open>getAllTasks\<close> gives the task list, \<open>getTaskAnalytics\<close> returns the
  analytics of that list. For the empty list the completion rate and the average age are
  the number 0. For a list of four tasks of which exactly one has the status
  \<open>Completed\<close>, the completion rate is the text \<open>25.00\<close>.
\<close>

theorem analytics_rates:
  assumes "getAllTasks None st = (Inr tasks, st')"
  shows "getTaskAnalytics now st = (Inr (analyse now tasks), st') \<and>
         (tasks = [] \<longrightarrow>
            completionRate (analyse now tasks) = JNumber 0 \<and>
            averageAge (analyse now tasks) = JNumber 0) \<and>
         (length tasks = 4 \<and>
          length (filter (\<lambda>task. Status task = ''Completed'') tasks) = 1 \<longrightarrow>
            completionRate (analyse now tasks) = JString ''25.00'')"
proof (intro conjI impI)
  show "getTaskAnalytics now st = (Inr (analyse now tasks), st')"
    using assms by (rule getTaskAnalytics_of_tasks)
next
  assume "tasks = []"
  then show "completionRate (analyse now tasks) = JNumber 0"
    by (simp add: completionRate_analyse)
next
  assume "tasks = []"
  then show "averageAge (analyse now tasks) = JNumber 0"
    by (simp add: analyse_def initial_analytics_def)
next
  assume "length tasks = 4 \<and>
    length (filter (\<lambda>task. Status task = ''Completed'') tasks) = 1"
  then show "completionRate (analyse now tasks) = JString ''25.00''"
    using toFixed2_quarter by (simp add: completionRate_analyse)
qed

theorem analytics_rates_witness:
  "getTaskAnalytics 5 (store_of []) =
     (Inr (analyse 5 []), (store_of [])\<lparr>cache := Some []\<rparr>) \<and>
   completionRate (analyse 5 []) = JNumber 0 \<and>
   averageAge (analyse 5 []) = JNumber 0 \<and>
   getTaskAnalytics 5 (store_of four_tasks) =
     (Inr (analyse 5 four_tasks), (store_of four_tasks)\<lparr>cache := Some four_tasks\<rparr>) \<and>
   completionRate (analyse 5 four_tasks) = JString ''25.00''"
proof -
  have e: "getAllTasks None (store_of []) = (Inr [], (store_of [])\<lparr>cache := Some []\<rparr>)"
    by (simp add: getAllTasks_def store_of_def getTaskSheet_def default_def)
  have f: "getAllTasks None (store_of four_tasks) =
      (Inr four_tasks, (store_of four_tasks)\<lparr>cache := Some four_tasks\<rparr>)"
    by (simp add: getAllTasks_def store_of_def getTaskSheet_def default_def)
  have n: "length four_tasks = 4 \<and>
      length (filter (\<lambda>task. Status task = ''Completed'') four_tasks) = 1"
    by (simp add: four_tasks_def task_row_def)
  show ?thesis
    using analytics_rates [OF e, of 5] analytics_rates [OF f, of 5] n by simp
qed

text \<open>The loop over the tags of a task bumps its non-empty trimmed pieces, in order.\<close>

lemma foldl_count_tag:
  "foldl count_tag d ts = foldl bump d (filter (\<lambda>tag. tag \<noteq> []) ts)"
proof (induction ts arbitrary: d)
  case Nil
  then show ?case by simp
next
  case (Cons t ts)
  show ?case
  proof (cases "t = []")
    case True
    then have "count_tag d t = d" by (simp add: count_tag_def)
    with True show ?thesis by (simp add: Cons.IH)
  next
    case False
    then have "count_tag d t = bump d t" by (simp add: count_tag_def)
    with False show ?thesis by (simp add: Cons.IH)
  qed
qed

lemma tags_of_empty: "Tags task = [] \<Longrightarrow> tags_of task = []"
  by (simp add: tags_of_def trim_def)

lemma count_tags_bump: "count_tags d task = foldl bump d (tags_of task)"
proof (cases "Tags task = []")
  case True
  then show ?thesis by (simp add: count_tags_def tags_of_empty)
next
  case False
  then show ?thesis by (simp add: count_tags_def foldl_count_tag tags_of_def)
qed

lemma tagDistribution_step:
  "tagDistribution (fst (analytics_step now (an, totalAge, completedTasks) task)) =
     foldl bump (tagDistribution an) (tags_of task)"
  by (simp add: analytics_step_def Let_def count_tags_bump)

lemma tagDistribution_foldl:
  "tagDistribution (fst (foldl (analytics_step now) (an, totalAge, completedTasks) tasks)) =
     foldl bump (tagDistribution an) (concat (map tags_of tasks))"
proof (induction tasks arbitrary: an totalAge completedTasks)
  case Nil
  then show ?case by simp
next
  case (Cons task tasks)
  obtain an' totalAge' completedTasks' where
    s: "analytics_step now (an, totalAge, completedTasks) task =
          (an', totalAge', completedTasks')"
    by (cases "analytics_step now (an, totalAge, completedTasks) task") auto
  have "tagDistribution an' = foldl bump (tagDistribution an) (tags_of task)"
    using tagDistribution_step [of now an totalAge completedTasks task] s by simp
  then show ?case by (simp add: s Cons.IH)
qed

lemma tagDistribution_analyse:
  "tagDistribution (analyse now tasks) = foldl bump Map.empty (concat (map tags_of tasks))"
proof -
  obtain an totalAge completedTasks where
    f: "foldl (analytics_step now) (initial_analytics tasks, 0, 0) tasks =
          (an, totalAge, completedTasks)"
    by (cases "foldl (analytics_step now) (initial_analytics tasks, 0, 0) tasks") auto
  have "tagDistribution an = foldl bump Map.empty (concat (map tags_of tasks))"
    using tagDistribution_foldl [of now "initial_analytics tasks" 0 0 tasks] f
    by (simp add: initial_analytics_def)
  then show ?thesis by (simp add: analyse_def f)
qed

text \<open>
  On a dictionary of numbers, a tag that is not an inherited name is counted: its number
  goes up by one. So the tags of a list without inherited names are counted by their
  occurrences.
\<close>

lemma bump_number:
  assumes "numbers d" and "inherited tag = None"
  shows "bump d tag = d(tag \<mapsto> JNumber (number_at d tag + 1))"
proof -
  from assms(2) have p: "tag \<noteq> ''__proto__''" by (auto simp: inherited_def)
  show ?thesis
  proof (cases "d tag")
    case None
    with p assms(2) show ?thesis by (simp add: bump_def set_prop_def number_at_def)
  next
    case (Some v)
    with assms(1) obtain n where "v = JNumber n"
      by (cases v) (auto simp: numbers_def)
    with Some p show ?thesis by (simp add: bump_def set_prop_def number_at_def plus1_def)
  qed
qed

lemma numbers_update: "numbers d \<Longrightarrow> numbers (d(tag \<mapsto> JNumber n))"
  by (simp add: numbers_def)

lemma added_Nil: "added d [] = d"
  by (rule ext) (simp add: added_def)

lemma foldl_bump_numbers:
  "numbers d \<Longrightarrow> \<forall>tag\<in>set ts. inherited tag = None \<Longrightarrow> foldl bump d ts = added d ts"
proof (induction ts arbitrary: d)
  case Nil
  then show ?case by (simp add: added_Nil)
next
  case (Cons t ts)
  from Cons.prems have i: "inherited t = None" by simp
  have b: "bump d t = d(t \<mapsto> JNumber (number_at d t + 1))"
    using Cons.prems(1) i by (rule bump_number)
  have n: "numbers (d(t \<mapsto> JNumber (number_at d t + 1)))"
    using Cons.prems(1) by (rule numbers_update)
  from Cons.prems have r: "\<forall>tag\<in>set ts. inherited tag = None" by simp
  have "foldl bump d (t # ts) = foldl bump (d(t \<mapsto> JNumber (number_at d t + 1))) ts"
    by (simp only: foldl_Cons b)
  also have "\<dots> = added (d(t \<mapsto> JNumber (number_at d t + 1))) ts"
    using n r by (rule Cons.IH)
  also have "\<dots> = added d (t # ts)"
    by (rule ext) (simp add: added_def number_at_def)
  finally show ?case .
qed

lemma added_empty: "added Map.empty (concat (map tags_of tasks)) = spec_tagDistribution tasks"
  by (rule ext) (simp add: added_def spec_tagDistribution_def number_at_def Let_def)

text \<open>
  A tag that is an inherited name is not counted: for the one tag \<open>constructor\<close> the
  distribution holds a text.
\<close>

lemma tagDistribution_constructor:
  "tagDistribution (analyse now [t\<lparr>Tags := ''constructor''\<rparr>]) =
     [''constructor'' \<mapsto> JString ''function Object() { [native code] }1'']"
  by (simp add: tagDistribution_analyse tags_of_def trim_def is_ws_def bump_def
      set_prop_def inherited_def)

lemma tags_ab: "tags_of (t\<lparr>Tags := ''a, b''\<rparr>) = [''a'', ''b'']"
  by (simp add: tags_of_def trim_def is_ws_def)

lemma tags_bc: "tags_of (t\<lparr>Tags := ''b,c''\<rparr>) = [''b'', ''c'']"
  by (simp add: tags_of_def trim_def is_ws_def)

lemma not_inherited_abc:
  "inherited ''a'' = None \<and> inherited ''b'' = None \<and> inherited ''c'' = None"
  by (simp add: inherited_def native_names_def)

text \<open>
  Claim C7: the tag distribution that \<open>getTaskAnalytics\<close> computes from a task list is
  built from the pieces of the tags fields, split at the commas, trimmed, the empty ones
  left out: it is the empty dictionary after \<open>d[tag] = (d[tag] || 0) + 1\<close> for each of
  these pieces in order. Where none of the pieces is a name that a dictionary inherits,
  it maps every tag to the number of its occurrences. For two tasks with the tags
  \<open>a, b\<close> and \<open>b,c\<close> it is the dictionary with a at 1, b at 2 and c at 1, and nothing
  else.
\<close>

theorem tagDistribution_by_tags:
  "tagDistribution (analyse now tasks) =
     foldl bump Map.empty (concat (map tags_of tasks)) \<and>
   ((\<forall>tag\<in>set (concat (map tags_of tasks)). inherited tag = None) \<longrightarrow>
      tagDistribution (analyse now tasks) = spec_tagDistribution tasks) \<and>
   tagDistribution (analyse now [t1\<lparr>Tags := ''a, b''\<rparr>, t2\<lparr>Tags := ''b,c''\<rparr>]) =
     [''a'' \<mapsto> JNumber 1, ''b'' \<mapsto> JNumber 2, ''c'' \<mapsto> JNumber 1]"
proof (intro conjI impI)
  show "tagDistribution (analyse now tasks) =
      foldl bump Map.empty (concat (map tags_of tasks))"
    by (rule tagDistribution_analyse)
next
  assume "\<forall>tag\<in>set (concat (map tags_of tasks)). inherited tag = None"
  moreover have "numbers Map.empty" by (simp add: numbers_def)
  ultimately have "foldl bump Map.empty (concat (map tags_of tasks)) =
      added Map.empty (concat (map tags_of tasks))"
    by (simp add: foldl_bump_numbers)
  then show "tagDistribution (analyse now tasks) = spec_tagDistribution tasks"
    by (simp add: tagDistribution_analyse added_empty)
next
  have "numbers Map.empty" by (simp add: numbers_def)
  moreover have "\<forall>tag\<in>set [''a'', ''b'', ''b'', ''c'']. inherited tag = None"
    using not_inherited_abc by simp
  ultimately have "foldl bump Map.empty [''a'', ''b'', ''b'', ''c''] =
      added Map.empty [''a'', ''b'', ''b'', ''c'']"
    by (rule foldl_bump_numbers)
  also have "\<dots> = [''a'' \<mapsto> JNumber 1, ''b'' \<mapsto> JNumber 2, ''c'' \<mapsto> JNumber 1]"
    by (rule ext) (simp add: added_def number_at_def)
  finally show "tagDistribution (analyse now [t1\<lparr>Tags := ''a, b''\<rparr>, t2\<lparr>Tags := ''b,c''\<rparr>]) =
      [''a'' \<mapsto> JNumber 1, ''b'' \<mapsto> JNumber 2, ''c'' \<mapsto> JNumber 1]"
    by (simp add: tagDistribution_analyse tags_ab tags_bc)
qed

theorem tagDistribution_by_tags_witness:
  "tags_of (task_row 1 ''x'' ''Pending''\<lparr>Tags := ''a, b''\<rparr>) = [''a'', ''b''] \<and>
   tags_of (task_row 2 ''y'' ''Pending''\<lparr>Tags := ''b,c''\<rparr>) = [''b'', ''c''] \<and>
   inherited ''a'' = None \<and> inherited ''b'' = None \<and> inherited ''c'' = None \<and>
   tagDistribution (analyse 0 [task_row 1 ''x'' ''Pending''\<lparr>Tags := ''a, b''\<rparr>,
                               task_row 2 ''y'' ''Pending''\<lparr>Tags := ''b,c''\<rparr>]) =
     spec_tagDistribution [task_row 1 ''x'' ''Pending''\<lparr>Tags := ''a, b''\<rparr>,
                           task_row 2 ''y'' ''Pending''\<lparr>Tags := ''b,c''\<rparr>] \<and>
   tagDistribution (analyse 0 [task_row 1 ''x'' ''Pending''\<lparr>Tags := ''a, b''\<rparr>,
                               task_row 2 ''y'' ''Pending''\<lparr>Tags := ''b,c''\<rparr>]) =
     [''a'' \<mapsto> JNumber 1, ''b'' \<mapsto> JNumber 2, ''c'' \<mapsto> JNumber 1]"
proof -
  have h: "\<forall>tag\<in>set (concat (map tags_of
      [task_row 1 ''x'' ''Pending''\<lparr>Tags := ''a, b''\<rparr>,
       task_row 2 ''y'' ''Pending''\<lparr>Tags := ''b,c''\<rparr>])). inherited tag = None"
    using not_inherited_abc by (simp add: tags_ab tags_bc)
  note t = tagDistribution_by_tags [of 0 "[task_row 1 ''x'' ''Pending''\<lparr>Tags := ''a, b''\<rparr>,
        task_row 2 ''y'' ''Pending''\<lparr>Tags := ''b,c''\<rparr>]" "task_row 1 ''x'' ''Pending''"
        "task_row 2 ''y'' ''Pending''"]
  from t h have a: "tagDistribution (analyse 0
      [task_row 1 ''x'' ''Pending''\<lparr>Tags := ''a, b''\<rparr>,
       task_row 2 ''y'' ''Pending''\<lparr>Tags := ''b,c''\<rparr>]) =
      spec_tagDistribution [task_row 1 ''x'' ''Pending''\<lparr>Tags := ''a, b''\<rparr>,
                            task_row 2 ''y'' ''Pending''\<lparr>Tags := ''b,c''\<rparr>]"
    by blast
  from t have b: "tagDistribution (analyse 0
      [task_row 1 ''x'' ''Pending''\<lparr>Tags := ''a, b''\<rparr>,
       task_row 2 ''y'' ''Pending''\<lparr>Tags := ''b,c''\<rparr>]) =
      [''a'' \<mapsto> JNumber 1, ''b'' \<mapsto> JNumber 2, ''c'' \<mapsto> JNumber 1]"
    by blast
  show ?thesis
    using a b not_inherited_abc tags_ab [of "task_row 1 ''x'' ''Pending''"]
      tags_bc [of "task_row 2 ''y'' ''Pending''"]
    by blast
qed

end
